theory Spec2Isabelle
  imports Complex_Main "HOL-Library.AList"
begin

section \<open>Iris classifier: shallow embedding of the response formatter, the classifier
  wrapper, the training pipeline and the serving endpoints\<close>

text \<open>
  Conventions of the embedding.
  \<^item> A Python float is modelled by the real number it denotes. The repository never does
    arithmetic on floats: it compares them with bounds and passes them on.
  \<^item> A Python exception is a value of the type \<open>'x error\<close>: \<open>Inl e\<close> is "raised e".
    \<open>Raised x\<close> is an exception raised inside a call of scikit-learn, joblib or json.
  \<^item> A Python dict is an association list with distinct keys, in insertion order.
  \<^item> The libraries the repository calls are not part of it. Their operations are the fields
    of the record \<open>lib\<close>, passed as the first argument \<open>L\<close>.
\<close>

subsection \<open>Exceptions and Python indexing\<close>

datatype 'x error =
    ValueError string
  | IndexError
  | OSError
  | ValidationError
  | Raised 'x

text \<open>\<open>xs[i]\<close> on a list or a one-dimensional array: a negative index counts from the end,
  an index out of range raises IndexError.\<close>

definition py_getitem :: "'v list \<Rightarrow> int \<Rightarrow> 'x error + 'v" where
  "py_getitem xs i =
     (if 0 \<le> i \<and> i < int (length xs) then Inr (xs ! nat i)
      else if i < 0 \<and> - int (length xs) \<le> i then Inr (xs ! nat (int (length xs) + i))
      else Inl IndexError)"

text \<open>A dict comprehension \<open>{k: v for k, v in pairs}\<close>: a key met again keeps its place and
  takes the new value.\<close>

definition py_dict :: "('k \<times> 'v) list \<Rightarrow> ('k \<times> 'v) list" where
  "py_dict pairs = fold (\<lambda>(k, v) d. AList.update k v d) pairs []"

subsection \<open>utils.py: format_prediction_response\<close>

definition CLASS_NAMES :: "string list" where
  "CLASS_NAMES = [''setosa'', ''versicolor'', ''virginica'']"

definition FEATURE_NAMES :: "string list" where
  "FEATURE_NAMES = [''sepal_length'', ''sepal_width'', ''petal_length'', ''petal_width'']"

record PredictionResponse =
  prediction :: string
  prediction_index :: int
  confidence :: real
  probabilities :: "(string \<times> real) list"

definition format_prediction_response ::
  "int \<Rightarrow> real list \<Rightarrow> string list \<Rightarrow> 'x error + PredictionResponse" where
  "format_prediction_response pred probs class_names =
     (case py_getitem class_names pred of
        Inl e \<Rightarrow> Inl e
      | Inr name \<Rightarrow>
          (case py_getitem probs pred of
             Inl e \<Rightarrow> Inl e
           | Inr conf \<Rightarrow>
               Inr \<lparr> prediction = name,
                     prediction_index = pred,
                     confidence = conf,
                     probabilities = py_dict (zip class_names probs) \<rparr>))"

subsection \<open>utils.py: convert_numpy_to_python\<close>

text \<open>The Python values the converter tells apart. \<open>NdArray a\<close> is a numpy array; the
  type \<open>'a\<close> of arrays is left open, and \<open>ndarray.tolist\<close> is a parameter.\<close>

datatype 'a pyval =
    PNone
  | PBool bool
  | PInt int
  | PFloat real
  | PStr string
  | PTuple "'a pyval list"
  | PList "'a pyval list"
  | PDict "('a pyval \<times> 'a pyval) list"
  | NpBool bool
  | NpInteger int
  | NpFloating real
  | NdArray 'a

fun convert_numpy_to_python :: "('a \<Rightarrow> 'a pyval) \<Rightarrow> 'a pyval \<Rightarrow> 'a pyval" where
  "convert_numpy_to_python tolist (NdArray a) = tolist a"
| "convert_numpy_to_python tolist (NpInteger i) = PInt i"
| "convert_numpy_to_python tolist (NpFloating x) = PFloat x"
| "convert_numpy_to_python tolist (PDict kvs) =
     PDict (map (\<lambda>(k, v). (k, convert_numpy_to_python tolist v)) kvs)"
| "convert_numpy_to_python tolist (PList xs) = PList (map (convert_numpy_to_python tolist) xs)"
| "convert_numpy_to_python tolist obj = obj"

text \<open>What numpy documents of \<open>tolist\<close> on an array of numbers: nested lists of Python
  scalars. \<open>plain v\<close> says that no numpy integer, numpy floating or array is met in \<open>v\<close>
  on the way through lists and dict values.\<close>

fun plain :: "'a pyval \<Rightarrow> bool" where
  "plain (NdArray a) = False"
| "plain (NpInteger i) = False"
| "plain (NpFloating x) = False"
| "plain (PDict kvs) = list_all (\<lambda>(k, v). plain v) kvs"
| "plain (PList xs) = list_all plain xs"
| "plain obj = True"

text \<open>\<open>tolist_plain tolist obj\<close>: every array met in \<open>obj\<close> on the way through lists and
  dict values has a plain \<open>tolist()\<close>.\<close>

fun tolist_plain :: "('a \<Rightarrow> 'a pyval) \<Rightarrow> 'a pyval \<Rightarrow> bool" where
  "tolist_plain tolist (NdArray a) = plain (tolist a)"
| "tolist_plain tolist (PDict kvs) = list_all (\<lambda>(k, v). tolist_plain tolist v) kvs"
| "tolist_plain tolist (PList xs) = list_all (tolist_plain tolist) xs"
| "tolist_plain tolist obj = True"

subsection \<open>config.py and the libraries\<close>

type_synonym path = "string list"
type_synonym matrix = "real list list"
type_synonym labels = "int list"

record Settings =
  project_root :: path
  model_path :: path
  random_state :: int
  test_size :: real
  n_estimators :: int
  max_depth :: "int option"
  api_version :: string

definition is_absolute :: "path \<Rightarrow> bool" where
  "is_absolute p = (case p of [] \<Rightarrow> False | c # _ \<Rightarrow> c = ''/'')"

definition get_model_path :: "Settings \<Rightarrow> path" where
  "get_model_path S =
     (if is_absolute (Settings.model_path S) then Settings.model_path S
      else project_root S @ Settings.model_path S)"

record 'm IrisClassifier =
  model :: 'm
  random_state :: int
  is_trained :: bool

text \<open>The library operations the repository calls. \<open>'m\<close> is the state of a
  RandomForestClassifier, \<open>'a\<close> a numpy array of metrics, \<open>'x\<close> an exception raised inside
  a library. \<open>json_encode\<close> gives the text json.dump has written and the exception it has
  raised on the way, if any.\<close>

record ('m, 'a, 'x) lib =
  RandomForestClassifier :: "int \<Rightarrow> int option \<Rightarrow> int \<Rightarrow> 'm"
  rf_fit :: "'m \<Rightarrow> matrix \<Rightarrow> labels \<Rightarrow> 'x + 'm"
  rf_predict :: "'m \<Rightarrow> matrix \<Rightarrow> 'x + labels"
  rf_predict_proba :: "'m \<Rightarrow> matrix \<Rightarrow> 'x + matrix"
  load_iris :: "matrix \<times> labels"
  train_test_split :: "matrix \<Rightarrow> labels \<Rightarrow> real \<Rightarrow> int \<Rightarrow> 'x + matrix \<times> matrix \<times> labels \<times> labels"
  accuracy_score :: "labels \<Rightarrow> labels \<Rightarrow> 'x + 'a pyval"
  confusion_matrix :: "labels \<Rightarrow> labels \<Rightarrow> 'x + 'a"
  classification_report :: "labels \<Rightarrow> labels \<Rightarrow> string list \<Rightarrow> 'x + 'a pyval"
  ndarray_tolist :: "'a \<Rightarrow> 'a pyval"
  joblib_pickle :: "'m IrisClassifier \<Rightarrow> string"
  joblib_unpickle :: "string \<Rightarrow> 'x + 'm IrisClassifier"
  json_encode :: "'a pyval \<Rightarrow> string \<times> 'x option"

definition lib_call :: "'x + 'r \<Rightarrow> 'x error + 'r" where
  "lib_call r = (case r of Inl x \<Rightarrow> Inl (Raised x) | Inr v \<Rightarrow> Inr v)"

subsection \<open>The file system\<close>

text \<open>Files by path, the directories that exist, the paths at which creating or
  writing fails (no permission, read-only medium, full disk), and the paths whose status
  cannot be read (a name that is too long, a directory on the way that may not be
  searched).\<close>

record filesystem =
  files :: "path \<rightharpoonup> string"
  dirs :: "path set"
  unwritable :: "path set"
  stat_raises :: "path set"

text \<open>\<open>Path.exists()\<close>: \<open>False\<close> when nothing is there, but an OSError of the status call
  other than "no such file" is raised to the caller.\<close>

definition path_exists :: "filesystem \<Rightarrow> path \<Rightarrow> 'x error + bool" where
  "path_exists fs p =
     (if p \<in> stat_raises fs then Inl OSError
      else Inr (files fs p \<noteq> None \<or> p \<in> dirs fs))"



text \<open>Opening a file for writing and writing \<open>text\<close> to it.\<close>

definition write_file :: "filesystem \<Rightarrow> path \<Rightarrow> string \<Rightarrow> 'x error + filesystem" where
  "write_file fs p text =
     (if p \<in> unwritable fs \<or> butlast p \<notin> dirs fs \<or> p \<in> dirs fs then Inl OSError
      else Inr (fs\<lparr>files := (files fs)(p \<mapsto> text)\<rparr>))"

definition read_file :: "filesystem \<Rightarrow> path \<Rightarrow> 'x error + string" where
  "read_file fs p = (case files fs p of None \<Rightarrow> Inl OSError | Some text \<Rightarrow> Inr text)"


subsection \<open>model.py: IrisClassifier\<close>

definition IrisClassifier_init ::
  "('m, 'a, 'x) lib \<Rightarrow> int \<Rightarrow> int option \<Rightarrow> int \<Rightarrow> 'm IrisClassifier" where
  "IrisClassifier_init L n d rs =
     \<lparr> IrisClassifier.model = RandomForestClassifier L n d rs,
       IrisClassifier.random_state = rs,
       is_trained = False \<rparr>"


definition train ::
  "('m, 'a, 'x) lib \<Rightarrow> 'm IrisClassifier \<Rightarrow> matrix \<Rightarrow> labels \<Rightarrow> 'x error + 'm IrisClassifier" where
  "train L self X_train y_train =
     (case lib_call (rf_fit L (IrisClassifier.model self) X_train y_train) of
        Inl e \<Rightarrow> Inl e
      | Inr fitted \<Rightarrow> Inr (self\<lparr>IrisClassifier.model := fitted, is_trained := True\<rparr>))"

definition predict :: "('m, 'a, 'x) lib \<Rightarrow> 'm IrisClassifier \<Rightarrow> matrix \<Rightarrow> 'x error + labels" where
  "predict L self X =
     (if \<not> is_trained self
      then Inl (ValueError ''Model must be trained before making predictions'')
      else lib_call (rf_predict L (IrisClassifier.model self) X))"

definition predict_proba ::
  "('m, 'a, 'x) lib \<Rightarrow> 'm IrisClassifier \<Rightarrow> matrix \<Rightarrow> 'x error + matrix" where
  "predict_proba L self X =
     (if \<not> is_trained self
      then Inl (ValueError ''Model must be trained before making predictions'')
      else lib_call (rf_predict_proba L (IrisClassifier.model self) X))"


text \<open>\<open>joblib.dump(self, filepath)\<close> and \<open>joblib.load(filepath)\<close>\<close>

definition save ::
  "('m, 'a, 'x) lib \<Rightarrow> 'm IrisClassifier \<Rightarrow> path \<Rightarrow> filesystem \<Rightarrow> 'x error + filesystem" where
  "save L self filepath fs =
     (if \<not> is_trained self then Inl (ValueError ''Cannot save an untrained model'')
      else write_file fs filepath (joblib_pickle L self))"

definition load ::
  "('m, 'a, 'x) lib \<Rightarrow> path \<Rightarrow> filesystem \<Rightarrow> 'x error + 'm IrisClassifier" where
  "load L filepath fs =
     (case read_file fs filepath of
        Inl e \<Rightarrow> Inl e
      | Inr text \<Rightarrow> lib_call (joblib_unpickle L text))"

subsection \<open>utils.py: save_metrics\<close>


subsection \<open>train.py: the training pipeline\<close>



subsection \<open>serve.py: the serving endpoints\<close>

text \<open>The globals of the module: \<open>serve.model\<close> is the process-wide model reference.\<close>

record 'm serve =
  model :: "'m IrisClassifier option"

definition serve_init :: "'m serve" where
  "serve_init = \<lparr> serve.model = None \<rparr>"

record IrisFeatures =
  sepal_length :: real
  sepal_width :: real
  petal_length :: real
  petal_width :: real

record HealthResponse =
  status :: string
  model_loaded :: bool
  model_path :: path

text \<open>What a request is answered with: the value returned with status 200, or an error
  status with the fixed part of its detail and the exception whose text is appended.\<close>

datatype ('x, 'r) http =
    OK 'r
  | HTTPException nat string "'x error option"

fun status_code :: "('x, 'r) http \<Rightarrow> nat" where
  "status_code (OK r) = 200"
| "status_code (HTTPException code detail exc) = code"

text \<open>The body of a request is a JSON object with numbers as values. A field declared
  \<open>Field(..., ge=0)\<close> is required and has to be at least 0; the framework builds the
  \<open>IrisFeatures\<close> before it calls the handler, and answers 422 when it cannot.\<close>

type_synonym json_object = "string \<rightharpoonup> real"

definition Field_ge0 :: "json_object \<Rightarrow> string \<Rightarrow> real option" where
  "Field_ge0 body name =
     (case body name of None \<Rightarrow> None | Some v \<Rightarrow> if 0 \<le> v then Some v else None)"

definition IrisFeatures_validate :: "json_object \<Rightarrow> IrisFeatures option" where
  "IrisFeatures_validate body =
     (case Field_ge0 body ''sepal_length'' of None \<Rightarrow> None | Some sl \<Rightarrow>
     (case Field_ge0 body ''sepal_width'' of None \<Rightarrow> None | Some sw \<Rightarrow>
     (case Field_ge0 body ''petal_length'' of None \<Rightarrow> None | Some pl \<Rightarrow>
     (case Field_ge0 body ''petal_width'' of None \<Rightarrow> None | Some pw \<Rightarrow>
        Some \<lparr> sepal_length = sl, sepal_width = sw, petal_length = pl, petal_width = pw \<rparr>))))"

fun IrisFeatures_validate_list :: "json_object list \<Rightarrow> IrisFeatures list option" where
  "IrisFeatures_validate_list [] = Some []"
| "IrisFeatures_validate_list (body # bodies) =
     (case IrisFeatures_validate body of
        None \<Rightarrow> None
      | Some f \<Rightarrow>
          (case IrisFeatures_validate_list bodies of None \<Rightarrow> None | Some fs \<Rightarrow> Some (f # fs)))"

text \<open>\<open>PredictionResponse(**result)\<close>: confidence is declared with \<open>ge=0, le=1\<close>.\<close>

definition PredictionResponse_init :: "PredictionResponse \<Rightarrow> 'x error + PredictionResponse" where
  "PredictionResponse_init result =
     (if 0 \<le> confidence result \<and> confidence result \<le> 1 then Inr result
      else Inl ValidationError)"

text \<open>A record of the log: the level, the fixed part of the message (an interpolated
  path is left out) and the exception that is logged with it.\<close>

datatype 'x log_record =
    LogInfo string
  | LogError string "'x error option"

text \<open>The startup handler. \<open>model_path.exists()\<close> is called before the \<open>try\<close> block, so what
  it raises leaves the handler; what \<open>IrisClassifier.load\<close> raises is caught and logged.
  The result is the exception that left the handler or the globals it leaves, and the
  records it has logged.\<close>

definition load_model ::
  "Settings \<Rightarrow> ('m, 'a, 'x) lib \<Rightarrow> filesystem \<Rightarrow> 'm serve
     \<Rightarrow> ('x error + 'm serve) \<times> 'x log_record list" where
  "load_model S L fs g =
     (let model_path = get_model_path S in
      case path_exists fs model_path of
        Inl e \<Rightarrow> (Inl e, [LogInfo ''Loading model from ''])
      | Inr found \<Rightarrow>
          if \<not> found
          then (Inr g,
                [LogInfo ''Loading model from '',
                 LogError ''Model file not found at '' None,
                 LogError ''Please train the model first using: poetry run train'' None])
          else (case load L model_path fs of
                  Inr loaded \<Rightarrow>
                    (Inr (g\<lparr>serve.model := Some loaded\<rparr>),
                     [LogInfo ''Loading model from '', LogInfo ''Model loaded successfully!''])
                | Inl e \<Rightarrow>
                    (Inr g,
                     [LogInfo ''Loading model from '',
                      LogError ''Failed to load model: '' (Some e)])))"

definition root_endpoint :: "Settings \<Rightarrow> (string \<times> string) list" where
  "root_endpoint S =
     [(''message'', ''Iris Classifier API''), (''version'', api_version S),
      (''docs'', ''/docs''), (''health'', ''/health'')]"

definition health :: "Settings \<Rightarrow> 'm serve \<Rightarrow> HealthResponse" where
  "health S g =
     \<lparr> status = (if serve.model g \<noteq> None then ''healthy'' else ''unhealthy''),
       model_loaded = (serve.model g \<noteq> None),
       HealthResponse.model_path = get_model_path S \<rparr>"

definition features_row :: "IrisFeatures \<Rightarrow> real list" where
  "features_row f = [sepal_length f, sepal_width f, petal_length f, petal_width f]"

text \<open>The body of the \<open>try\<close> block of \<open>predict\<close>.\<close>

definition predict_try ::
  "('m, 'a, 'x) lib \<Rightarrow> 'm IrisClassifier \<Rightarrow> matrix \<Rightarrow> 'x error + PredictionResponse" where
  "predict_try L m X =
     (case predict L m X of Inl e \<Rightarrow> Inl e | Inr predictions \<Rightarrow>
     (case py_getitem predictions 0 of Inl e \<Rightarrow> Inl e | Inr pred \<Rightarrow>
     (case predict_proba L m X of Inl e \<Rightarrow> Inl e | Inr probability_rows \<Rightarrow>
     (case py_getitem probability_rows 0 of Inl e \<Rightarrow> Inl e | Inr probs \<Rightarrow>
     (case format_prediction_response pred probs CLASS_NAMES of Inl e \<Rightarrow> Inl e | Inr result \<Rightarrow>
        PredictionResponse_init result)))))"

definition serve_predict ::
  "('m, 'a, 'x) lib \<Rightarrow> 'm serve \<Rightarrow> IrisFeatures \<Rightarrow> ('x, PredictionResponse) http" where
  "serve_predict L g features =
     (case serve.model g of
        None \<Rightarrow> HTTPException 503 ''Model not loaded. Please check server logs.'' None
      | Some m \<Rightarrow>
          (let X = [features_row features] in
           case predict_try L m X of
             Inr response \<Rightarrow> OK response
           | Inl e \<Rightarrow> HTTPException 500 ''Prediction failed: '' (Some e)))"

text \<open>The list comprehension of \<open>predict_batch\<close>: the first element that raises ends it.\<close>

fun batch_results :: "(int \<times> real list) list \<Rightarrow> 'x error + PredictionResponse list" where
  "batch_results [] = Inr []"
| "batch_results ((pred, probs) # rest) =
     (case format_prediction_response pred probs CLASS_NAMES of Inl e \<Rightarrow> Inl e | Inr result \<Rightarrow>
     (case PredictionResponse_init result of Inl e \<Rightarrow> Inl e | Inr response \<Rightarrow>
     (case batch_results rest of Inl e \<Rightarrow> Inl e | Inr responses \<Rightarrow>
        Inr (response # responses))))"

definition predict_batch_try ::
  "('m, 'a, 'x) lib \<Rightarrow> 'm IrisClassifier \<Rightarrow> matrix \<Rightarrow> 'x error + PredictionResponse list" where
  "predict_batch_try L m X =
     (case predict L m X of Inl e \<Rightarrow> Inl e | Inr predictions \<Rightarrow>
     (case predict_proba L m X of Inl e \<Rightarrow> Inl e | Inr probability_rows \<Rightarrow>
        batch_results (zip predictions probability_rows)))"

definition predict_batch ::
  "('m, 'a, 'x) lib \<Rightarrow> 'm serve \<Rightarrow> IrisFeatures list \<Rightarrow> ('x, PredictionResponse list) http" where
  "predict_batch L g features_list =
     (case serve.model g of
        None \<Rightarrow> HTTPException 503 ''Model not loaded. Please check server logs.'' None
      | Some m \<Rightarrow>
          (let X = map features_row features_list in
           case predict_batch_try L m X of
             Inr results \<Rightarrow> OK results
           | Inl e \<Rightarrow> HTTPException 500 ''Batch prediction failed: '' (Some e)))"

text \<open>The two POST routes as the framework serves them: validation of the body first,
  then the handler.\<close>

definition post_predict ::
  "('m, 'a, 'x) lib \<Rightarrow> 'm serve \<Rightarrow> json_object \<Rightarrow> ('x, PredictionResponse) http" where
  "post_predict L g body =
     (case IrisFeatures_validate body of
        None \<Rightarrow> HTTPException 422 ''validation error'' None
      | Some features \<Rightarrow> serve_predict L g features)"

definition post_predict_batch ::
  "('m, 'a, 'x) lib \<Rightarrow> 'm serve \<Rightarrow> json_object list \<Rightarrow> ('x, PredictionResponse list) http" where
  "post_predict_batch L g bodies =
     (case IrisFeatures_validate_list bodies of
        None \<Rightarrow> HTTPException 422 ''validation error'' None
      | Some features_list \<Rightarrow> predict_batch L g features_list)"

text \<open>A running server: each request is answered from the globals, which the handler hands
  on. No handler declares \<open>global model\<close>, so none can assign to it.\<close>

datatype request =
    GetRoot
  | GetHealth
  | PostPredict json_object
  | PostPredictBatch "json_object list"

datatype 'x reply =
    RootReply "(string \<times> string) list"
  | HealthReply HealthResponse
  | PredictReply "('x, PredictionResponse) http"
  | BatchReply "('x, PredictionResponse list) http"

fun handle ::
  "Settings \<Rightarrow> ('m, 'a, 'x) lib \<Rightarrow> request \<Rightarrow> 'm serve \<Rightarrow> 'x reply \<times> 'm serve" where
  "handle S L GetRoot g = (RootReply (root_endpoint S), g)"
| "handle S L GetHealth g = (HealthReply (health S g), g)"
| "handle S L (PostPredict body) g = (PredictReply (post_predict L g body), g)"
| "handle S L (PostPredictBatch bodies) g = (BatchReply (post_predict_batch L g bodies), g)"

text \<open>The globals after startup and after each request of a sequence, in order.\<close>

fun serve_states ::
  "Settings \<Rightarrow> ('m, 'a, 'x) lib \<Rightarrow> request list \<Rightarrow> 'm serve \<Rightarrow> 'm serve list" where
  "serve_states S L [] g = [g]"
| "serve_states S L (req # reqs) g = g # serve_states S L reqs (snd (handle S L req g))"

text \<open>A startup handler that raises keeps the server from starting: no request is
  served and there are no globals to speak of.\<close>

definition run_server ::
  "Settings \<Rightarrow> ('m, 'a, 'x) lib \<Rightarrow> filesystem \<Rightarrow> request list \<Rightarrow> 'm serve list" where
  "run_server S L fs reqs =
     (case fst (load_model S L fs serve_init) of
        Inl e \<Rightarrow> []
      | Inr g \<Rightarrow> serve_states S L reqs g)"

subsection \<open>A library instance and a deployment to run the model on\<close>

text \<open>A small estimator for running examples: it learns the first label it is shown and
  predicts it for every row, with probability 1. Like the input check of scikit-learn it
  rejects an empty batch and rows that do not have four features, and it refuses to
  predict before it is fitted. The pickle of a classifier is two characters.\<close>

definition check_array :: "matrix \<Rightarrow> bool" where
  "check_array X = (X \<noteq> [] \<and> list_all (\<lambda>row. length row = 4) X)"

definition one_hot :: "int \<Rightarrow> real list" where
  "one_hot k = map (\<lambda>j. if j = k then 1 else 0) [0, 1, 2]"

definition example_unpickle :: "string \<Rightarrow> string + int option IrisClassifier" where
  "example_unpickle text =
     (if text = ''T0'' then Inr \<lparr> IrisClassifier.model = Some 0, IrisClassifier.random_state = 42, is_trained = True \<rparr>
      else if text = ''T1'' then Inr \<lparr> IrisClassifier.model = Some 1, IrisClassifier.random_state = 42, is_trained = True \<rparr>
      else if text = ''T2'' then Inr \<lparr> IrisClassifier.model = Some 2, IrisClassifier.random_state = 42, is_trained = True \<rparr>
      else Inl ''UnpicklingError'')"

definition example_lib :: "(int option, int list list, string) lib" where
  "example_lib =
     \<lparr> RandomForestClassifier = (\<lambda>n d rs. None),
       rf_fit = (\<lambda>m X y. if check_array X \<and> length y = length X then Inr (Some (hd y))
                          else Inl ''ValueError''),
       rf_predict = (\<lambda>m X. case m of None \<Rightarrow> Inl ''NotFittedError''
                     | Some k \<Rightarrow> if check_array X then Inr (map (\<lambda>row. k) X) else Inl ''ValueError''),
       rf_predict_proba = (\<lambda>m X. case m of None \<Rightarrow> Inl ''NotFittedError''
                     | Some k \<Rightarrow> if check_array X then Inr (map (\<lambda>row. one_hot k) X)
                                 else Inl ''ValueError''),
       load_iris = ([[51/10, 7/2, 7/5, 1/5], [67/10, 3, 26/5, 23/10]], [0, 2]),
       train_test_split = (\<lambda>X y ts rs. if 0 < ts \<and> ts < 1 then Inr (X, X, y, y)
                                       else Inl ''ValueError''),
       accuracy_score = (\<lambda>y_true y_pred. Inr (NpFloating (1/2))),
       confusion_matrix = (\<lambda>y_true y_pred. Inr [[1, 0], [1, 0]]),
       classification_report = (\<lambda>y_true y_pred names. Inr (PDict [])),
       ndarray_tolist = (\<lambda>a. PList (map (\<lambda>row. PList (map PInt row)) a)),
       joblib_pickle = (\<lambda>c. (if is_trained c then ''T'' else ''F'') @
                             (case IrisClassifier.model c of
                                None \<Rightarrow> ''N''
                              | Some k \<Rightarrow> if k = 0 then ''0'' else if k = 1 then ''1'' else ''2'')),
       joblib_unpickle = example_unpickle,
       json_encode = (\<lambda>v. if plain v then (''{}'', None) else ([], Some ''TypeError'')) \<rparr>"

definition example_settings :: Settings where
  "example_settings =
     \<lparr> project_root = [''/'', ''app''],
       Settings.model_path = [''models'', ''iris_model.joblib''],
       Settings.random_state = 42,
       test_size = 2/10,
       n_estimators = 100,
       max_depth = None,
       api_version = ''0.1.0'' \<rparr>"

definition example_fs :: filesystem where
  "example_fs =
     \<lparr> files = Map.empty, dirs = {[], [''/''], [''/'', ''app'']}, unwritable = {},
       stat_raises = {} \<rparr>"

definition example_classifier :: "int option IrisClassifier" where
  "example_classifier =
     \<lparr> IrisClassifier.model = Some 0, IrisClassifier.random_state = 42, is_trained = True \<rparr>"

text \<open>Numpy arrays to run the converter on: a 0-d array of an integer, a 1-d array of
  integers, and an array of dtype object whose items are 1-d arrays of integers (what numpy
  builds from rows of different lengths). \<open>tolist\<close> as numpy documents it: the bare
  scalar for a 0-d array, and the items as they are for dtype object.\<close>

datatype example_array =
    Array0 int
  | Array1 "int list"
  | ObjectArray "int list list"

fun example_tolist :: "example_array \<Rightarrow> example_array pyval" where
  "example_tolist (Array0 n) = PInt n"
| "example_tolist (Array1 xs) = PList (map PInt xs)"
| "example_tolist (ObjectArray rows) = PList (map (\<lambda>row. NdArray (Array1 row)) rows)"

definition example_features :: IrisFeatures where
  "example_features =
     \<lparr> sepal_length = 51/10, sepal_width = 7/2, petal_length = 7/5, petal_width = 1/5 \<rparr>"

subsection \<open>Properties of the response formatter\<close>

lemma py_getitem_in_range:
  "0 \<le> i \<Longrightarrow> i < int (length xs) \<Longrightarrow> py_getitem xs i = Inr (xs ! nat i)"
  by (simp add: py_getitem_def)

lemma py_dict_three:
  "k0 \<noteq> k1 \<Longrightarrow> k0 \<noteq> k2 \<Longrightarrow> k1 \<noteq> k2 \<Longrightarrow>
   py_dict [(k0, v0), (k1, v1), (k2, v2)] = [(k0, v0), (k1, v1), (k2, v2)]"
  by (simp add: py_dict_def)

lemma probabilities_dict:
  "length p = 3 \<Longrightarrow> py_dict (zip CLASS_NAMES p) = zip CLASS_NAMES p"
proof -
  assume "length p = 3"
  then obtain a b c where p: "p = [a, b, c]"
    by (cases p; simp; rename_tac x xs; case_tac xs; simp;
        rename_tac y ys; case_tac ys; simp)
  show ?thesis
    unfolding p CLASS_NAMES_def by (simp add: py_dict_three)
qed

text \<open>
  C1. On its stated domain (an index \<open>i\<close> with \<open>0 \<le> i < 3\<close>, a probability vector of
  length 3, the fixed class-name list) \<open>format_prediction_response\<close> raises nothing and
  returns the record whose prediction is the class name at position \<open>i\<close>, whose
  prediction_index is \<open>i\<close>, whose confidence is \<open>p[i]\<close> and whose probabilities dict maps
  the class name at every position \<open>j\<close> to \<open>p[j]\<close> and has no other key.
\<close>

theorem format_prediction_response_total:
  assumes "0 \<le> i" and "i < 3" and "length p = 3"
  shows "\<exists>r. format_prediction_response i p CLASS_NAMES = (Inr r :: 'x error + PredictionResponse)
           \<and> prediction r = CLASS_NAMES ! nat i
           \<and> prediction_index r = i
           \<and> confidence r = p ! nat i
           \<and> (\<forall>j < 3. map_of (probabilities r) (CLASS_NAMES ! j) = Some (p ! j))
           \<and> map fst (probabilities r) = CLASS_NAMES"
proof -
  have n: "py_getitem CLASS_NAMES i = (Inr (CLASS_NAMES ! nat i) :: 'x error + string)"
    using assms by (intro py_getitem_in_range) (simp_all add: CLASS_NAMES_def)
  have c: "py_getitem p i = (Inr (p ! nat i) :: 'x error + real)"
    using assms by (intro py_getitem_in_range) simp_all
  have d: "py_dict (zip CLASS_NAMES p) = zip CLASS_NAMES p"
    using assms(3) by (rule probabilities_dict)
  have len: "length CLASS_NAMES = 3" and dist: "distinct CLASS_NAMES"
    by (simp_all add: CLASS_NAMES_def)
  have m: "\<forall>j < 3. map_of (zip CLASS_NAMES p) (CLASS_NAMES ! j) = Some (p ! j)"
    using assms(3) len dist by (simp add: map_of_zip_nth)
  have k: "map fst (zip CLASS_NAMES p) = CLASS_NAMES"
    using assms(3) len by simp
  show ?thesis
    using m k by (simp add: format_prediction_response_def n c d)
qed

theorem format_prediction_response_total_witness:
  "format_prediction_response 0 [8/10, 15/100, 5/100] CLASS_NAMES
     = (Inr \<lparr> prediction = ''setosa'', prediction_index = 0, confidence = 8/10,
              probabilities = [(''setosa'', 8/10), (''versicolor'', 15/100),
                               (''virginica'', 5/100)] \<rparr> :: unit error + PredictionResponse)"
  using format_prediction_response_total [of 0 "[8/10, 15/100, 5/100]"]
  by (simp add: format_prediction_response_def py_getitem_def py_dict_def CLASS_NAMES_def)

subsection \<open>Properties of the converter\<close>

lemma plain_fixed: "plain v \<Longrightarrow> convert_numpy_to_python t v = v"
proof (induction t v rule: convert_numpy_to_python.induct)
  case (4 tolist kvs)
  have "map (\<lambda>(k, v). (k, convert_numpy_to_python tolist v)) kvs = kvs"
  proof (rule map_idI)
    fix kv assume m: "kv \<in> set kvs"
    obtain k v where kv: "kv = (k, v)" by (cases kv)
    from 4(2) m kv have "plain v" by (auto simp: list_all_iff)
    with 4(1)[OF m kv[symmetric]] kv
    show "(case kv of (k, v) \<Rightarrow> (k, convert_numpy_to_python tolist v)) = kv" by simp
  qed
  then show ?case by simp
next
  case (5 tolist xs)
  then have "map (convert_numpy_to_python tolist) xs = xs"
    by (intro map_idI) (simp add: list_all_iff)
  then show ?case by simp
qed simp_all

lemma plain_convert:
  "tolist_plain t v \<Longrightarrow> plain (convert_numpy_to_python t v)"
proof (induction t v rule: convert_numpy_to_python.induct)
  case (4 tolist kvs)
  then show ?case by (auto simp: list_all_iff)
next
  case (5 tolist xs)
  then show ?case by (auto simp: list_all_iff)
qed simp_all

text \<open>
  C10 (as amended). \<open>convert_numpy_to_python\<close> keeps the structure: a dict becomes a dict
  with the same keys in the same order, a list becomes a list of the same length whose
  elements are the converted elements in order, an array becomes its \<open>tolist()\<close> value, and
  \<open>None\<close>, booleans, Python integers, Python floats and strings are returned unchanged.
  It is idempotent on every input in which the \<open>tolist()\<close> of each array met on the way
  through lists and dict values holds no numpy value, as numpy documents for arrays of
  numbers.
\<close>

theorem convert_numpy_to_python_idempotent:
  assumes "tolist_plain tolist obj"
  shows "convert_numpy_to_python tolist (convert_numpy_to_python tolist obj)
           = convert_numpy_to_python tolist obj
       \<and> (\<exists>kvs'. convert_numpy_to_python tolist (PDict kvs) = PDict kvs'
                   \<and> map fst kvs' = map fst kvs)
       \<and> (\<exists>ys. convert_numpy_to_python tolist (PList xs) = PList ys
                   \<and> length ys = length xs
                   \<and> (\<forall>i < length xs. ys ! i = convert_numpy_to_python tolist (xs ! i)))
       \<and> convert_numpy_to_python tolist (NdArray a) = tolist a
       \<and> convert_numpy_to_python tolist PNone = PNone
       \<and> convert_numpy_to_python tolist (PBool b) = PBool b
       \<and> convert_numpy_to_python tolist (PInt n) = PInt n
       \<and> convert_numpy_to_python tolist (PFloat x) = PFloat x
       \<and> convert_numpy_to_python tolist (PStr s) = PStr s"
proof -
  have "plain (convert_numpy_to_python tolist obj)"
    using assms by (rule plain_convert)
  then have idem: "convert_numpy_to_python tolist (convert_numpy_to_python tolist obj)
           = convert_numpy_to_python tolist obj"
    by (rule plain_fixed)
  have keys: "map fst (map (\<lambda>(k, v). (k, convert_numpy_to_python tolist v)) kvs) = map fst kvs"
    by (induction kvs) auto
  show ?thesis
    using idem keys by simp
qed

theorem convert_numpy_to_python_idempotent_witness:
  "convert_numpy_to_python example_tolist
     (convert_numpy_to_python example_tolist
        (PDict [(PStr ''array'', NdArray (Array1 [1, 2])), (PStr ''num'', NpInteger 5)]))
   = PDict [(PStr ''array'', PList [PInt 1, PInt 2]), (PStr ''num'', PInt 5)]
   \<and> convert_numpy_to_python example_tolist
        (PDict [(PStr ''array'', NdArray (Array1 [1, 2])), (PStr ''num'', NpInteger 5)])
   = PDict [(PStr ''array'', PList [PInt 1, PInt 2]), (PStr ''num'', PInt 5)]"
proof -
  have h: "tolist_plain example_tolist
     (PDict [(PStr ''array'', NdArray (Array1 [1, 2])), (PStr ''num'', NpInteger 5)])"
    by simp
  show ?thesis
    using convert_numpy_to_python_idempotent [OF h] by simp
qed

text \<open>
  C10, counterexample to the claim as stated. A 0-d array is converted to a bare scalar,
  not to a list; and an array of dtype object whose items are arrays is converted to a list
  of arrays, which a second application converts further, so that applying the converter
  twice differs from applying it once.
\<close>

theorem convert_numpy_to_python_array_counterexample:
  "convert_numpy_to_python example_tolist (NdArray (Array0 5)) = PInt 5
 \<and> convert_numpy_to_python example_tolist (NdArray (ObjectArray [[1, 2], [3]]))
     = PList [NdArray (Array1 [1, 2]), NdArray (Array1 [3])]
 \<and> convert_numpy_to_python example_tolist
       (convert_numpy_to_python example_tolist (NdArray (ObjectArray [[1, 2], [3]])))
     = PList [PList [PInt 1, PInt 2], PList [PInt 3]]"
  by simp

subsection \<open>Properties of the classifier wrapper\<close>

lemma lib_call_not_ValueError: "lib_call r \<noteq> Inl (ValueError msg)"
  by (cases r) (simp_all add: lib_call_def)

lemma write_file_not_ValueError: "write_file fs p text \<noteq> Inl (ValueError msg)"
  by (simp add: write_file_def)

lemma load_decode_error:
  "files fs p = Some text \<Longrightarrow> joblib_unpickle L text = Inl x \<Longrightarrow> load L p fs = Inl (Raised x)"
  by (simp add: load_def read_file_def lib_call_def)

text \<open>
  C3. \<open>predict\<close>, \<open>predict_proba\<close> and \<open>save\<close> raise their "untrained model" ValueError
  exactly when the flag \<open>is_trained\<close> is unset. A call of \<open>train\<close> that returns leaves the
  flag set, after which the three operations go on to the library call and do not raise
  that error. \<open>train\<close> itself never looks at the flag and raises no error of its own: called
  again, it stores the newly fitted estimator in place of the old one.
\<close>

theorem untrained_error_iff_flag_unset:
  "(predict L c X = Inl (ValueError ''Model must be trained before making predictions'')
      \<longleftrightarrow> \<not> is_trained c)
 \<and> (predict_proba L c X = Inl (ValueError ''Model must be trained before making predictions'')
      \<longleftrightarrow> \<not> is_trained c)
 \<and> (save L c filepath fs = Inl (ValueError ''Cannot save an untrained model'')
      \<longleftrightarrow> \<not> is_trained c)
 \<and> (\<forall>c'. train L c X_train y_train = Inr c' \<longrightarrow>
        is_trained c'
      \<and> predict L c' X = lib_call (rf_predict L (IrisClassifier.model c') X)
      \<and> predict_proba L c' X = lib_call (rf_predict_proba L (IrisClassifier.model c') X)
      \<and> save L c' filepath fs = write_file fs filepath (joblib_pickle L c')
      \<and> predict L c' X \<noteq> Inl (ValueError ''Model must be trained before making predictions'')
      \<and> predict_proba L c' X \<noteq> Inl (ValueError ''Model must be trained before making predictions'')
      \<and> save L c' filepath fs \<noteq> Inl (ValueError ''Cannot save an untrained model''))
 \<and> (\<forall>msg. train L c X_train y_train \<noteq> Inl (ValueError msg))
 \<and> (\<forall>fitted. rf_fit L (IrisClassifier.model c) X_train y_train = Inr fitted \<longrightarrow>
        train L c X_train y_train = Inr (c\<lparr>IrisClassifier.model := fitted, is_trained := True\<rparr>))"
proof -
  have p: "predict L c X = Inl (ValueError ''Model must be trained before making predictions'')
      \<longleftrightarrow> \<not> is_trained c"
    by (simp add: predict_def lib_call_not_ValueError)
  have pp: "predict_proba L c X = Inl (ValueError ''Model must be trained before making predictions'')
      \<longleftrightarrow> \<not> is_trained c"
    by (simp add: predict_proba_def lib_call_not_ValueError)
  have s: "save L c filepath fs = Inl (ValueError ''Cannot save an untrained model'')
      \<longleftrightarrow> \<not> is_trained c"
    by (simp add: save_def write_file_not_ValueError)
  have t: "\<forall>c'. train L c X_train y_train = Inr c' \<longrightarrow>
        is_trained c'
      \<and> predict L c' X = lib_call (rf_predict L (IrisClassifier.model c') X)
      \<and> predict_proba L c' X = lib_call (rf_predict_proba L (IrisClassifier.model c') X)
      \<and> save L c' filepath fs = write_file fs filepath (joblib_pickle L c')
      \<and> predict L c' X \<noteq> Inl (ValueError ''Model must be trained before making predictions'')
      \<and> predict_proba L c' X \<noteq> Inl (ValueError ''Model must be trained before making predictions'')
      \<and> save L c' filepath fs \<noteq> Inl (ValueError ''Cannot save an untrained model'')"
    by (auto simp: train_def predict_def predict_proba_def save_def lib_call_not_ValueError
        write_file_not_ValueError split: sum.splits)
  have n: "\<forall>msg. train L c X_train y_train \<noteq> Inl (ValueError msg)"
    by (auto simp: train_def lib_call_def split: sum.splits)
  have r: "\<forall>fitted. rf_fit L (IrisClassifier.model c) X_train y_train = Inr fitted \<longrightarrow>
        train L c X_train y_train = Inr (c\<lparr>IrisClassifier.model := fitted, is_trained := True\<rparr>)"
    by (simp add: train_def lib_call_def)
  from p pp s t n r show ?thesis by blast
qed

theorem untrained_error_iff_flag_unset_witness:
  "train example_lib (IrisClassifier_init example_lib 100 None 42) [[1, 2, 3, 4]] [0]
     = Inr example_classifier
   \<and> is_trained example_classifier
   \<and> predict example_lib example_classifier [[1, 2, 3, 4]] = Inr [0]
   \<and> predict example_lib (IrisClassifier_init example_lib 100 None 42) [[1, 2, 3, 4]]
       = Inl (ValueError ''Model must be trained before making predictions'')
   \<and> train example_lib example_classifier [[1, 2, 3, 4]] [2]
       = Inr (example_classifier\<lparr>IrisClassifier.model := Some 2\<rparr>)"
  using untrained_error_iff_flag_unset [of example_lib "IrisClassifier_init example_lib 100 None 42"
      "[[1, 2, 3, 4]]" "[]" example_fs "[[1, 2, 3, 4]]" "[0]"]
  by (simp add: train_def predict_def lib_call_def example_lib_def example_classifier_def
      IrisClassifier_init_def check_array_def)

text \<open>
  C7. Round trip: for a trained classifier, \<open>save\<close> to a path that can be written followed
  by \<open>load\<close> of that path gives a trained classifier whose \<open>predict\<close> returns on every
  input what the original's returns, given that joblib restores the object it has dumped.
\<close>

theorem save_then_load_same_predictions:
  assumes "is_trained c"
    and "filepath \<notin> unwritable fs" and "butlast filepath \<in> dirs fs" and "filepath \<notin> dirs fs"
    and "joblib_unpickle L (joblib_pickle L c) = Inr c"
  shows "\<exists>fs' c'. save L c filepath fs = Inr fs'
           \<and> load L filepath fs' = Inr c'
           \<and> is_trained c'
           \<and> (\<forall>X. predict L c' X = predict L c X)"
  using assms by (simp add: save_def write_file_def load_def read_file_def lib_call_def)

theorem save_then_load_same_predictions_witness:
  "is_trained example_classifier
   \<and> (\<exists>fs'. save example_lib example_classifier [''/'', ''app'', ''model.joblib''] example_fs = Inr fs'
        \<and> load example_lib [''/'', ''app'', ''model.joblib''] fs' = Inr example_classifier)
   \<and> predict example_lib example_classifier [[51/10, 7/2, 7/5, 1/5]] = Inr [0]"
proof -
  have t: "is_trained example_classifier"
    by (simp add: example_classifier_def)
  have w: "[''/'', ''app'', ''model.joblib''] \<notin> unwritable example_fs"
    "butlast [''/'', ''app'', ''model.joblib''] \<in> dirs example_fs"
    "[''/'', ''app'', ''model.joblib''] \<notin> dirs example_fs"
    by (simp_all add: example_fs_def)
  have j: "joblib_unpickle example_lib (joblib_pickle example_lib example_classifier)
             = Inr example_classifier"
    by (simp add: example_lib_def example_unpickle_def example_classifier_def)
  have p: "predict example_lib example_classifier [[51/10, 7/2, 7/5, 1/5]] = Inr [0]"
    by (simp add: predict_def lib_call_def example_lib_def example_classifier_def check_array_def)
  from save_then_load_same_predictions [OF t w j] obtain fs' c' where
    s: "save example_lib example_classifier [''/'', ''app'', ''model.joblib''] example_fs = Inr fs'"
    and l: "load example_lib [''/'', ''app'', ''model.joblib''] fs' = Inr c'"
    by blast
  have "c' = example_classifier"
    using s l j t w
    by (auto simp: save_def write_file_def load_def read_file_def lib_call_def)
  with s l t p show ?thesis by blast
qed

subsection \<open>Properties of the serving endpoints\<close>

lemma handle_keeps_globals: "snd (handle S L req g) = g"
  by (cases req) simp_all

lemma serve_states_constant: "\<forall>g' \<in> set (serve_states S L reqs g). g' = g"
  by (induction reqs) (simp_all add: handle_keeps_globals)

text \<open>What the startup handler does when the status of the path can be read: a missing
  file and an exception of \<open>IrisClassifier.load\<close> (a decode error among others) are logged
  as errors, the handler returns, the model reference stays \<open>None\<close> and the health query
  reports \<open>model_loaded = False\<close>.\<close>

lemma load_model_handled_failure:
  fixes L :: "('m, 'a, 'x) lib"
  assumes "path_exists fs (get_model_path S) = (Inr False :: 'x error + bool)
         \<or> (path_exists fs (get_model_path S) = (Inr True :: 'x error + bool)
             \<and> (\<exists>e. load L (get_model_path S) fs = Inl e))"
  shows "fst (load_model S L fs serve_init) = Inr serve_init
       \<and> (\<exists>msg exc. LogError msg exc \<in> set (snd (load_model S L fs serve_init)))
       \<and> model_loaded (health S (serve_init :: 'm serve)) = False
       \<and> status (health S (serve_init :: 'm serve)) = ''unhealthy''"
  using assms by (fastforce simp: load_model_def Let_def health_def serve_init_def)

text \<open>
  C6. At startup a failure to load the model is to be logged and leave the process running
  with no model loaded. The handler does so for a missing file and for an exception of
  \<open>IrisClassifier.load\<close>, but not when reading the status of the configured path raises
  (a name that is too long, a directory that may not be searched): \<open>model_path.exists()\<close>
  stands before the \<open>try\<close> block, so the exception leaves the startup handler, no failure
  is logged and the server does not start. Here the file is missing and the status of its
  path cannot be read.
\<close>

theorem load_model_exists_raises_at_startup:
  "path_exists (example_fs\<lparr>stat_raises := {[''/'', ''app'', ''models'', ''iris_model.joblib'']}\<rparr>)
      (get_model_path example_settings) = (Inl OSError :: string error + bool)
 \<and> files (example_fs\<lparr>stat_raises := {[''/'', ''app'', ''models'', ''iris_model.joblib'']}\<rparr>)
      (get_model_path example_settings) = None
 \<and> load_model example_settings example_lib
      (example_fs\<lparr>stat_raises := {[''/'', ''app'', ''models'', ''iris_model.joblib'']}\<rparr>)
      serve_init
    = (Inl OSError, [LogInfo ''Loading model from ''])
 \<and> run_server example_settings example_lib
      (example_fs\<lparr>stat_raises := {[''/'', ''app'', ''models'', ''iris_model.joblib'']}\<rparr>)
      [GetHealth]
    = []"
  by (simp add: run_server_def load_model_def path_exists_def example_fs_def
      get_model_path_def example_settings_def is_absolute_def)

theorem load_model_exists_raises_at_startup_witness:
  "fst (load_model example_settings example_lib
      (example_fs\<lparr>stat_raises := {[''/'', ''app'', ''models'', ''iris_model.joblib'']}\<rparr>)
      serve_init) = Inl OSError
 \<and> snd (load_model example_settings example_lib
      (example_fs\<lparr>stat_raises := {[''/'', ''app'', ''models'', ''iris_model.joblib'']}\<rparr>)
      serve_init) = [LogInfo ''Loading model from '']"
  using load_model_exists_raises_at_startup by simp

text \<open>
  C9. The model reference is written at most once, by \<open>load_model\<close> at startup: that
  either raises, or leaves the globals as they are, or sets the reference to the classifier
  it has loaded. No request handler (root, health, predict, predict_batch) changes the
  globals, so after startup and after every request of any sequence the model reference is
  the one that startup left.
\<close>

theorem model_reference_written_once:
  "(\<forall>g \<in> set (run_server S L fs reqs).
       \<exists>started. fst (load_model S L fs serve_init) = Inr started
                \<and> serve.model g = serve.model started)
 \<and> (\<forall>started. fst (load_model S L fs serve_init) = Inr started \<longrightarrow>
       run_server S L fs reqs = serve_states S L reqs started)
 \<and> snd (handle S L req g0) = g0
 \<and> ((\<exists>e. fst (load_model S L fs g0) = Inl e)
      \<or> fst (load_model S L fs g0) = Inr g0
      \<or> (\<exists>loaded. load L (get_model_path S) fs = Inr loaded
            \<and> fst (load_model S L fs g0) = Inr (g0\<lparr>serve.model := Some loaded\<rparr>)))"
proof -
  have a: "\<forall>g \<in> set (run_server S L fs reqs).
       \<exists>started. fst (load_model S L fs serve_init) = Inr started
                \<and> serve.model g = serve.model started"
  proof (cases "fst (load_model S L fs serve_init)")
    case (Inl e)
    then show ?thesis by (simp add: run_server_def)
  next
    case (Inr started)
    then show ?thesis
      using serve_states_constant [of S L reqs started] by (auto simp: run_server_def)
  qed
  have r: "\<forall>started. fst (load_model S L fs serve_init) = Inr started \<longrightarrow>
       run_server S L fs reqs = serve_states S L reqs started"
    by (simp add: run_server_def)
  have b: "(\<exists>e. fst (load_model S L fs g0) = Inl e)
      \<or> fst (load_model S L fs g0) = Inr g0
      \<or> (\<exists>loaded. load L (get_model_path S) fs = Inr loaded
            \<and> fst (load_model S L fs g0) = Inr (g0\<lparr>serve.model := Some loaded\<rparr>))"
    by (auto simp: load_model_def Let_def split: sum.splits)
  from a r b show ?thesis by (simp add: handle_keeps_globals)
qed

theorem model_reference_written_once_witness:
  "run_server example_settings example_lib
      (example_fs\<lparr>files := [get_model_path example_settings \<mapsto> ''T0'']\<rparr>)
      [GetHealth, PostPredict Map.empty]
    = [\<lparr>serve.model = Some example_classifier\<rparr>,
       \<lparr>serve.model = Some example_classifier\<rparr>,
       \<lparr>serve.model = Some example_classifier\<rparr>]"
proof -
  have l: "fst (load_model example_settings example_lib
      (example_fs\<lparr>files := [get_model_path example_settings \<mapsto> ''T0'']\<rparr>) serve_init)
      = Inr \<lparr>serve.model = Some example_classifier\<rparr>"
    by (simp add: load_model_def load_def read_file_def lib_call_def
      path_exists_def example_lib_def example_unpickle_def example_classifier_def
      example_fs_def serve_init_def Let_def)
  from l model_reference_written_once [of example_settings example_lib
      "example_fs\<lparr>files := [get_model_path example_settings \<mapsto> ''T0'']\<rparr>"
      "[GetHealth, PostPredict Map.empty]" GetHealth serve_init, THEN conjunct2, THEN conjunct1]
  have "run_server example_settings example_lib
      (example_fs\<lparr>files := [get_model_path example_settings \<mapsto> ''T0'']\<rparr>)
      [GetHealth, PostPredict Map.empty]
    = serve_states example_settings example_lib [GetHealth, PostPredict Map.empty]
        \<lparr>serve.model = Some example_classifier\<rparr>"
    by blast
  then show ?thesis by simp
qed

lemma format_prediction_response_value:
  "0 \<le> i \<Longrightarrow> i < int (length names) \<Longrightarrow> i < int (length p) \<Longrightarrow>
   format_prediction_response i p names
     = Inr \<lparr> prediction = names ! nat i, prediction_index = i, confidence = p ! nat i,
             probabilities = py_dict (zip names p) \<rparr>"
  by (simp add: format_prediction_response_def py_getitem_in_range)

lemma batch_results_ok:
  "length preds = length rows \<Longrightarrow>
   \<forall>i < length rows. 0 \<le> preds ! i \<and> preds ! i < 3 \<and> length (rows ! i) = 3
        \<and> 0 \<le> rows ! i ! nat (preds ! i) \<and> rows ! i ! nat (preds ! i) \<le> 1 \<Longrightarrow>
   \<exists>results. batch_results (zip preds rows) = (Inr results :: 'x error + PredictionResponse list)
      \<and> length results = length rows
      \<and> (\<forall>i < length rows.
            format_prediction_response (preds ! i) (rows ! i) CLASS_NAMES
              = (Inr (results ! i) :: 'x error + PredictionResponse))"
proof (induction preds rows rule: list_induct2)
  case Nil
  then show ?case by simp
next
  case (Cons p ps r rs)
  from Cons.prems have h0: "0 \<le> p \<and> p < 3 \<and> length r = 3 \<and> 0 \<le> r ! nat p \<and> r ! nat p \<le> 1"
    by (auto dest: spec [of _ 0])
  have hs: "\<forall>i < length rs. 0 \<le> ps ! i \<and> ps ! i < 3 \<and> length (rs ! i) = 3
        \<and> 0 \<le> rs ! i ! nat (ps ! i) \<and> rs ! i ! nat (ps ! i) \<le> 1"
  proof (intro allI impI)
    fix i assume "i < length rs"
    then have "Suc i < length (r # rs)" by simp
    with Cons.prems have "0 \<le> (p # ps) ! Suc i \<and> (p # ps) ! Suc i < 3
        \<and> length ((r # rs) ! Suc i) = 3
        \<and> 0 \<le> (r # rs) ! Suc i ! nat ((p # ps) ! Suc i)
        \<and> (r # rs) ! Suc i ! nat ((p # ps) ! Suc i) \<le> 1"
      by blast
    then show "0 \<le> ps ! i \<and> ps ! i < 3 \<and> length (rs ! i) = 3
        \<and> 0 \<le> rs ! i ! nat (ps ! i) \<and> rs ! i ! nat (ps ! i) \<le> 1" by simp
  qed
  from Cons.IH [OF hs] obtain results where
    r1: "batch_results (zip ps rs) = (Inr results :: 'x error + PredictionResponse list)"
    and r2: "length results = length rs"
    and r3: "\<forall>i < length rs. format_prediction_response (ps ! i) (rs ! i) CLASS_NAMES
              = (Inr (results ! i) :: 'x error + PredictionResponse)"
    by blast
  define res where "res = \<lparr> prediction = CLASS_NAMES ! nat p, prediction_index = p,
      confidence = r ! nat p, probabilities = py_dict (zip CLASS_NAMES r) \<rparr>"
  have "length CLASS_NAMES = 3"
    by (simp add: CLASS_NAMES_def)
  with h0 have f1: "format_prediction_response p r CLASS_NAMES
      = (Inr res :: 'x error + PredictionResponse)"
    unfolding res_def by (intro format_prediction_response_value) simp_all
  have f2: "confidence res = r ! nat p"
    by (simp add: res_def)
  have v: "PredictionResponse_init res = (Inr res :: 'x error + PredictionResponse)"
    using h0 f2 by (simp add: PredictionResponse_init_def)
  have "batch_results (zip (p # ps) (r # rs)) = (Inr (res # results) :: 'x error + PredictionResponse list)"
    using f1 v r1 by simp
  moreover have "length (res # results) = length (r # rs)"
    using r2 by simp
  moreover have "\<forall>i < length (r # rs).
            format_prediction_response ((p # ps) ! i) ((r # rs) ! i) CLASS_NAMES
              = (Inr ((res # results) ! i) :: 'x error + PredictionResponse)"
  proof (intro allI impI)
    fix i assume "i < length (r # rs)"
    then show "format_prediction_response ((p # ps) ! i) ((r # rs) ! i) CLASS_NAMES
              = (Inr ((res # results) ! i) :: 'x error + PredictionResponse)"
      using f1 r3 by (cases i) simp_all
  qed
  ultimately show ?case by blast
qed

lemma Field_ge0_None_iff:
  "Field_ge0 body name = None \<longleftrightarrow> (case body name of None \<Rightarrow> True | Some v \<Rightarrow> v < 0)"
  by (auto simp: Field_ge0_def split: option.splits)

lemma IrisFeatures_validate_None_iff:
  "IrisFeatures_validate body = None
     \<longleftrightarrow> (\<exists>name \<in> set FEATURE_NAMES. case body name of None \<Rightarrow> True | Some v \<Rightarrow> v < 0)"
proof -
  have "IrisFeatures_validate body = None
     \<longleftrightarrow> (\<exists>name \<in> set FEATURE_NAMES. Field_ge0 body name = None)"
    by (auto simp: IrisFeatures_validate_def FEATURE_NAMES_def split: option.splits)
  then show ?thesis
    by (simp add: Field_ge0_None_iff)
qed

lemma IrisFeatures_validate_list_None_iff:
  "IrisFeatures_validate_list bodies = None
     \<longleftrightarrow> (\<exists>body \<in> set bodies. IrisFeatures_validate body = None)"
  by (induction bodies) (auto split: option.splits)

lemma status_code_serve_predict:
  "status_code (serve_predict L g f) \<in> {200, 503, 500}"
  by (auto simp: serve_predict_def Let_def split: option.splits sum.splits)

lemma status_code_predict_batch:
  "status_code (predict_batch L g fl) \<in> {200, 503, 500}"
  by (auto simp: predict_batch_def Let_def split: option.splits sum.splits)

text \<open>Batches the estimator accepts. With a trained classifier loaded, whenever the
  estimator answers the batch with one label in \<open>0..2\<close> and one row of three probabilities
  per input, the probability of the predicted class lying in \<open>[0, 1]\<close>, \<open>predict_batch\<close>
  answers with status 200 and a list with one result per input, the \<open>i\<close>-th result being
  the formatted \<open>i\<close>-th label and \<open>i\<close>-th row of the estimator.\<close>

lemma predict_batch_one_result_per_input_in_order:
  fixes L :: "('m, 'a, 'x) lib"
  assumes "serve.model g = Some m" and "is_trained m"
    and "rf_predict L (IrisClassifier.model m) (map features_row features_list) = Inr preds"
    and "rf_predict_proba L (IrisClassifier.model m) (map features_row features_list) = Inr rows"
    and "length preds = length features_list" and "length rows = length features_list"
    and "\<forall>i < length features_list. 0 \<le> preds ! i \<and> preds ! i < 3 \<and> length (rows ! i) = 3
           \<and> 0 \<le> rows ! i ! nat (preds ! i) \<and> rows ! i ! nat (preds ! i) \<le> 1"
  shows "\<exists>results. predict_batch L g features_list = OK results
           \<and> status_code (predict_batch L g features_list) = 200
           \<and> length results = length features_list
           \<and> (\<forall>i < length features_list.
                 format_prediction_response (preds ! i) (rows ! i) CLASS_NAMES
                   = (Inr (results ! i) :: 'x error + PredictionResponse))"
proof -
  have len: "length preds = length rows"
    using assms(5,6) by simp
  have rng: "\<forall>i < length rows. 0 \<le> preds ! i \<and> preds ! i < 3 \<and> length (rows ! i) = 3
        \<and> 0 \<le> rows ! i ! nat (preds ! i) \<and> rows ! i ! nat (preds ! i) \<le> 1"
    using assms(6,7) by simp
  from batch_results_ok [OF len rng] obtain results where
    r1: "batch_results (zip preds rows) = (Inr results :: 'x error + PredictionResponse list)"
    and r2: "length results = length rows"
    and r3: "\<forall>i < length rows. format_prediction_response (preds ! i) (rows ! i) CLASS_NAMES
              = (Inr (results ! i) :: 'x error + PredictionResponse)"
    by blast
  have t: "predict_batch_try L m (map features_row features_list) = Inr results"
    using assms(2,3,4) r1
    by (simp add: predict_batch_try_def predict_def predict_proba_def lib_call_def)
  have "predict_batch L g features_list = OK results"
    using assms(1) t by (simp add: predict_batch_def)
  then show ?thesis
    using r2 r3 assms(6) by simp
qed

lemma predict_batch_one_result_per_input_in_order_example:
  "predict_batch example_lib \<lparr>serve.model = Some example_classifier\<rparr>
      [example_features, example_features]
    = OK [\<lparr>prediction = ''setosa'', prediction_index = 0, confidence = 1,
            probabilities = [(''setosa'', 1), (''versicolor'', 0), (''virginica'', 0)]\<rparr>,
          \<lparr>prediction = ''setosa'', prediction_index = 0, confidence = 1,
            probabilities = [(''setosa'', 1), (''versicolor'', 0), (''virginica'', 0)]\<rparr>]"
proof -
  have a: "serve.model \<lparr>serve.model = Some example_classifier\<rparr> = Some example_classifier"
    and b: "is_trained example_classifier"
    by (simp_all add: example_classifier_def)
  have c: "rf_predict example_lib (IrisClassifier.model example_classifier)
             (map features_row [example_features, example_features]) = Inr [0, 0]"
    and d: "rf_predict_proba example_lib (IrisClassifier.model example_classifier)
             (map features_row [example_features, example_features])
           = Inr [[1, 0, 0], [1, 0, 0]]"
    by (simp_all add: example_lib_def example_classifier_def features_row_def check_array_def
        one_hot_def)
  have e: "\<forall>i < length [example_features, example_features].
       0 \<le> [0, 0 :: int] ! i \<and> [0, 0 :: int] ! i < 3
     \<and> length ([[1, 0, 0], [1, 0, 0 :: real]] ! i) = 3
     \<and> 0 \<le> [[1, 0, 0], [1, 0, 0 :: real]] ! i ! nat ([0, 0 :: int] ! i)
     \<and> [[1, 0, 0], [1, 0, 0 :: real]] ! i ! nat ([0, 0 :: int] ! i) \<le> 1"
    by (simp add: less_Suc_eq All_less_Suc)
  from predict_batch_one_result_per_input_in_order [OF a b c d _ _ e]
  obtain results where
    r: "predict_batch example_lib \<lparr>serve.model = Some example_classifier\<rparr>
          [example_features, example_features] = (OK results :: (string, PredictionResponse list) http)"
    and l: "length results = length [example_features, example_features]"
    and f: "\<forall>i < length [example_features, example_features].
              format_prediction_response ([0, 0] ! i) ([[1, 0, 0], [1, 0, 0]] ! i) CLASS_NAMES
              = (Inr (results ! i) :: string error + PredictionResponse)"
    by fastforce
  from f have f0: "format_prediction_response 0 [1, 0, 0] CLASS_NAMES
       = (Inr (results ! 0) :: string error + PredictionResponse)"
    and f1: "format_prediction_response 0 [1, 0, 0] CLASS_NAMES
       = (Inr (results ! 1) :: string error + PredictionResponse)"
    by (auto dest: spec [of _ 0] spec [of _ 1])
  have v: "format_prediction_response 0 [1, 0, 0] CLASS_NAMES
      = (Inr \<lparr>prediction = ''setosa'', prediction_index = 0, confidence = 1,
            probabilities = [(''setosa'', 1), (''versicolor'', 0), (''virginica'', 0)]\<rparr>
          :: string error + PredictionResponse)"
    by (simp add: format_prediction_response_def py_getitem_def py_dict_def CLASS_NAMES_def)
  from l obtain x y where xy: "results = [x, y]"
    by (cases results; simp; rename_tac a as; case_tac as; simp)
  with f0 f1 v r show ?thesis by simp
qed

text \<open>
  C2. The batch route is to answer every list of valid feature vectors with one result per
  input, in order, and the empty list with the empty list and status 200. The empty list
  passes validation, but the handler has no case for it: the empty batch goes to the
  estimator, the estimator rejects an empty batch (as the input check of scikit-learn
  does), and the \<open>except\<close> clause of the handler answers with status 500.
\<close>

theorem predict_batch_empty_list_status_500:
  "IrisFeatures_validate_list [] = Some []
 \<and> predict_batch example_lib \<lparr>serve.model = Some example_classifier\<rparr> []
     = HTTPException 500 ''Batch prediction failed: '' (Some (Raised ''ValueError''))
 \<and> status_code (post_predict_batch example_lib \<lparr>serve.model = Some example_classifier\<rparr> [])
     = 500"
  by (simp add: post_predict_batch_def predict_batch_def predict_batch_try_def predict_def
      lib_call_def example_lib_def example_classifier_def check_array_def)

text \<open>
  C4 (as amended). For \<open>/predict\<close> and \<open>/predict/batch\<close>: a body in which any of the four
  feature fields is missing or negative is answered with status 422 before the handler runs,
  whether or not a model is loaded; a body that passes validation is answered with status
  503 when no model is loaded; and any exception raised while predicting or formatting is
  caught and answered with status 500. No other status than 200, 422, 503 and 500 occurs.
\<close>

theorem predict_routes_status_codes:
  fixes L :: "('m, 'a, 'x) lib"
  shows
  "((\<exists>name \<in> set FEATURE_NAMES. case body name of None \<Rightarrow> True | Some v \<Rightarrow> v < 0) \<longrightarrow>
      post_predict L g body = HTTPException 422 ''validation error'' None)
 \<and> ((\<exists>b \<in> set bodies. \<exists>name \<in> set FEATURE_NAMES.
        case b name of None \<Rightarrow> True | Some v \<Rightarrow> v < 0) \<longrightarrow>
      post_predict_batch L g bodies = HTTPException 422 ''validation error'' None)
 \<and> (serve.model g = None
      \<and> \<not> (\<exists>name \<in> set FEATURE_NAMES. case body name of None \<Rightarrow> True | Some v \<Rightarrow> v < 0) \<longrightarrow>
      status_code (post_predict L g body) = 503)
 \<and> (serve.model g = None
      \<and> \<not> (\<exists>b \<in> set bodies. \<exists>name \<in> set FEATURE_NAMES.
             case b name of None \<Rightarrow> True | Some v \<Rightarrow> v < 0) \<longrightarrow>
      status_code (post_predict_batch L g bodies) = 503)
 \<and> (\<forall>m f e. serve.model g = Some m \<and> IrisFeatures_validate body = Some f
        \<and> predict_try L m [features_row f] = Inl e \<longrightarrow>
      post_predict L g body = HTTPException 500 ''Prediction failed: '' (Some e))
 \<and> (\<forall>m fl e. serve.model g = Some m \<and> IrisFeatures_validate_list bodies = Some fl
        \<and> predict_batch_try L m (map features_row fl) = Inl e \<longrightarrow>
      post_predict_batch L g bodies = HTTPException 500 ''Batch prediction failed: '' (Some e))
 \<and> status_code (post_predict L g body) \<in> {200, 422, 503, 500}
 \<and> status_code (post_predict_batch L g bodies) \<in> {200, 422, 503, 500}"
proof -
  have v1: "(\<exists>name \<in> set FEATURE_NAMES. case body name of None \<Rightarrow> True | Some v \<Rightarrow> v < 0)
      \<longleftrightarrow> IrisFeatures_validate body = None"
    by (simp add: IrisFeatures_validate_None_iff)
  have v2: "(\<exists>b \<in> set bodies. \<exists>name \<in> set FEATURE_NAMES.
        case b name of None \<Rightarrow> True | Some v \<Rightarrow> v < 0)
      \<longleftrightarrow> IrisFeatures_validate_list bodies = None"
    by (simp add: IrisFeatures_validate_list_None_iff IrisFeatures_validate_None_iff)
  have a: "IrisFeatures_validate body = None \<longrightarrow>
      post_predict L g body = HTTPException 422 ''validation error'' None"
    by (simp add: post_predict_def)
  have b: "IrisFeatures_validate_list bodies = None \<longrightarrow>
      post_predict_batch L g bodies = HTTPException 422 ''validation error'' None"
    by (simp add: post_predict_batch_def)
  have c: "serve.model g = None \<and> IrisFeatures_validate body \<noteq> None \<longrightarrow>
      status_code (post_predict L g body) = 503"
    by (auto simp: post_predict_def serve_predict_def)
  have d: "serve.model g = None \<and> IrisFeatures_validate_list bodies \<noteq> None \<longrightarrow>
      status_code (post_predict_batch L g bodies) = 503"
    by (auto simp: post_predict_batch_def predict_batch_def)
  have e: "\<forall>m f e. serve.model g = Some m \<and> IrisFeatures_validate body = Some f
        \<and> predict_try L m [features_row f] = Inl e \<longrightarrow>
      post_predict L g body = HTTPException 500 ''Prediction failed: '' (Some e)"
    by (simp add: post_predict_def serve_predict_def)
  have f: "\<forall>m fl e. serve.model g = Some m \<and> IrisFeatures_validate_list bodies = Some fl
        \<and> predict_batch_try L m (map features_row fl) = Inl e \<longrightarrow>
      post_predict_batch L g bodies = HTTPException 500 ''Batch prediction failed: '' (Some e)"
    by (simp add: post_predict_batch_def predict_batch_def)
  have s1: "status_code (post_predict L g body) \<in> {200, 422, 503, 500}"
    using status_code_serve_predict [of L g]
    by (auto simp: post_predict_def split: option.splits)
  have s2: "status_code (post_predict_batch L g bodies) \<in> {200, 422, 503, 500}"
    using status_code_predict_batch [of L g]
    by (auto simp: post_predict_batch_def split: option.splits)
  show ?thesis
    unfolding v1 v2 using a b c d e f s1 s2 by blast
qed

theorem predict_routes_status_codes_witness:
  "status_code (post_predict example_lib serve_init
      [''sepal_length'' \<mapsto> -1, ''sepal_width'' \<mapsto> 35/10, ''petal_length'' \<mapsto> 14/10,
       ''petal_width'' \<mapsto> 2/10]) = 422
 \<and> status_code (post_predict example_lib serve_init
      [''sepal_length'' \<mapsto> 51/10, ''sepal_width'' \<mapsto> 35/10, ''petal_length'' \<mapsto> 14/10,
       ''petal_width'' \<mapsto> 2/10]) = 503
 \<and> status_code (post_predict example_lib
      \<lparr>serve.model = Some (IrisClassifier_init example_lib 100 None 42)\<rparr>
      [''sepal_length'' \<mapsto> 51/10, ''sepal_width'' \<mapsto> 35/10, ''petal_length'' \<mapsto> 14/10,
       ''petal_width'' \<mapsto> 2/10]) = 500"
proof -
  let ?bad = "[''sepal_length'' \<mapsto> -1, ''sepal_width'' \<mapsto> 35/10, ''petal_length'' \<mapsto> 14/10,
       ''petal_width'' \<mapsto> 2/10] :: json_object"
  let ?good = "[''sepal_length'' \<mapsto> 51/10, ''sepal_width'' \<mapsto> 35/10, ''petal_length'' \<mapsto> 14/10,
       ''petal_width'' \<mapsto> 2/10] :: json_object"
  let ?g = "\<lparr>serve.model = Some (IrisClassifier_init example_lib 100 None 42)\<rparr>"
  have bad: "\<exists>name \<in> set FEATURE_NAMES. case ?bad name of None \<Rightarrow> True | Some v \<Rightarrow> v < 0"
    by (simp add: FEATURE_NAMES_def)
  have good: "\<not> (\<exists>name \<in> set FEATURE_NAMES. case ?good name of None \<Rightarrow> True | Some v \<Rightarrow> v < 0)"
    by (simp add: FEATURE_NAMES_def)
  have none: "serve.model (serve_init :: int option serve) = None"
    by (simp add: serve_init_def)
  have val: "IrisFeatures_validate ?good = Some example_features"
    by (simp add: IrisFeatures_validate_def Field_ge0_def example_features_def)
  have fail: "predict_try example_lib (IrisClassifier_init example_lib 100 None 42)
      [features_row example_features]
      = Inl (ValueError ''Model must be trained before making predictions'')"
    by (simp add: predict_try_def predict_def IrisClassifier_init_def)
  have 1: "status_code (post_predict example_lib serve_init ?bad) = 422"
    using bad predict_routes_status_codes [of ?bad example_lib serve_init "[]"]
    by simp
  have 2: "status_code (post_predict example_lib serve_init ?good) = 503"
    using good none predict_routes_status_codes [of ?good example_lib serve_init "[]"]
    by blast
  have 3: "status_code (post_predict example_lib ?g ?good) = 500"
    using val fail predict_routes_status_codes [of ?good example_lib ?g "[]"]
    by simp
  from 1 2 3 show ?thesis by blast
qed

text \<open>
  C4, counterexample to the claim as stated. With no model loaded, a body without
  \<open>petal_width\<close> is answered with status 422, not 503: validation comes first.
\<close>

theorem no_model_invalid_body_counterexample:
  "serve.model (serve_init :: int option serve) = None
 \<and> status_code (post_predict example_lib serve_init
      [''sepal_length'' \<mapsto> 51/10, ''sepal_width'' \<mapsto> 35/10, ''petal_length'' \<mapsto> 14/10]) = 422"
  by (simp add: serve_init_def post_predict_def IrisFeatures_validate_def Field_ge0_def)

subsection \<open>Properties of the training pipeline\<close>



















end
